theory Spec2Isabelle
  imports Complex_Main "HOL-Library.AList" "HOL-Library.Multiset"
begin

section \<open>AutoScrum: a shallow embedding of the workflow core\<close>

text \<open>
  The development follows four Python modules of the backend:
  \<^item> \<^verbatim>\<open>agents/story_creator_agent.py\<close> (story generation),
  \<^item> \<^verbatim>\<open>agents/prioritization_agent.py\<close> (prioritisation and assignment),
  \<^item> \<^verbatim>\<open>agents/dynamic_context_agent.py\<close> with \<^verbatim>\<open>memory/redis_client.py\<close>
    (bounded clarification dialogue and its persisted context),
  \<^item> \<^verbatim>\<open>autoscrum/transcript_agent.py\<close> (transcript triage and dispatch).

  Conventions. A Python dict read with \<^verbatim>\<open>d.get(k, default)\<close> is a record whose field
  is an \<open>option\<close> (\<open>None\<close>: the key is absent) when the default matters, and a JSON-shaped
  dict whose keys are not fixed is an association list. Story points are natural numbers
  (the point scale is 1, 2, 3, 5, 8, 13). Python floats are modelled by exact rationals:
  every constant of the source (0.5, 0.6, 1.2, ...) is the rational it is written as.
  JSON numbers are integers, and strings are ASCII. An exception is a value \<open>Inl e\<close> of
  a sum type. The external reasoning service and the ticket tools are parameters: their
  answer is an argument of the function that asks. So are two library functions the code
  calls: the regular-expression search for ticket references, and Python's \<^verbatim>\<open>hash\<close> of
  a string, which is a function of the interpreter process that computes it.
\<close>

subsection \<open>JSON values and dicts\<close>

datatype json =
    JNull
  | JBool bool
  | JInt int
  | JStr string
  | JList "json list"
  | JObj "(string \<times> json) list"

type_synonym dict = "(string \<times> json) list"

text \<open>
  The exceptions the modelled code can raise. \<open>ReasoningError\<close> is whatever
  \<^verbatim>\<open>generate_json_response\<close> raises (a transport failure or unparsable JSON);
  \<open>NoContextFound\<close> and \<open>ContextNotComplete\<close> are the two \<^verbatim>\<open>ValueError\<close>s of
  \<^verbatim>\<open>generate_from_feature_id\<close>, with the feature id of their message.
\<close>

datatype error =
    ReasoningError
  | NoContextFound int
  | ContextNotComplete int
  | TypeError
  | IndexError

text \<open>Python truthiness of a JSON value (\<^verbatim>\<open>if v:\<close>, \<^verbatim>\<open>not v\<close>).\<close>

fun truthy :: "json \<Rightarrow> bool" where
  "truthy JNull = False"
| "truthy (JBool b) = b"
| "truthy (JInt n) = (n \<noteq> 0)"
| "truthy (JStr s) = (s \<noteq> [])"
| "truthy (JList xs) = (xs \<noteq> [])"
| "truthy (JObj kvs) = (kvs \<noteq> [])"

text \<open>\<^verbatim>\<open>d.get(k)\<close>, \<^verbatim>\<open>k in d\<close>, \<^verbatim>\<open>d[k] = v\<close> and \<^verbatim>\<open>d.update(e)\<close>.\<close>

definition dict_get :: "dict \<Rightarrow> string \<Rightarrow> json option" where
  "dict_get d k = map_of d k"

definition dict_has :: "dict \<Rightarrow> string \<Rightarrow> bool" where
  "dict_has d k = (k \<in> fst ` set d)"

definition dict_set :: "dict \<Rightarrow> string \<Rightarrow> json \<Rightarrow> dict" where
  "dict_set d k v = AList.update k v d"

definition dict_update :: "dict \<Rightarrow> dict \<Rightarrow> dict" where
  "dict_update d e = fold (\<lambda>(k, v) acc. AList.update k v acc) e d"

definition required_keys :: "string list" where
  "required_keys =
     [''goals'', ''user_personas'', ''key_features'',
      ''acceptance_criteria'', ''technical_constraints'', ''success_metrics'']"

definition has_required_keys :: "dict \<Rightarrow> bool" where
  "has_required_keys d = list_all (dict_has d) required_keys"

subsection \<open>Story generation (\<^verbatim>\<open>StoryCreatorAgent.execute\<close>)\<close>

text \<open>A story object of the reasoning service's reply; every key may be missing.\<close>

record raw_story =
  rs_title :: "string option"
  rs_description :: "string option"
  rs_acceptance_criteria :: "string list option"
  rs_story_points :: "nat option"
  rs_priority :: "string option"
  rs_dependencies :: "string list option"

record formatted_story =
  fs_title :: string
  fs_description :: string
  fs_acceptance_criteria :: "string list"
  fs_story_points :: nat
  fs_priority :: string
  fs_dependencies :: "string list"
  fs_order :: nat

record generation_reply =
  gr_epic :: "json option"
  gr_stories :: "raw_story list option"

record generation_result =
  res_feature_id :: int
  res_epic :: "json option"
  res_stories :: "formatted_story list"
  res_total_story_points :: nat
  res_story_count :: nat

definition get_or :: "'a option \<Rightarrow> 'a \<Rightarrow> 'a" where
  "get_or v dflt = (case v of None \<Rightarrow> dflt | Some x \<Rightarrow> x)"

definition format_story :: "nat \<Rightarrow> raw_story \<Rightarrow> formatted_story" where
  "format_story idx story =
     \<lparr> fs_title = get_or (rs_title story) '''',
       fs_description = get_or (rs_description story) '''',
       fs_acceptance_criteria = get_or (rs_acceptance_criteria story) [],
       fs_story_points = get_or (rs_story_points story) 3,
       fs_priority = get_or (rs_priority story) ''medium'',
       fs_dependencies = get_or (rs_dependencies story) [],
       fs_order = idx + 1 \<rparr>"

text \<open>
  \<^verbatim>\<open>execute\<close>: the prompt is built from the context, the reasoning service is asked
  once (its failure propagates), and the reply is restructured. \<open>reply\<close> is what
  \<^verbatim>\<open>generate_json_response\<close> returned or raised.
\<close>

definition story_execute ::
  "int \<Rightarrow> dict \<Rightarrow> bool \<Rightarrow> error + generation_reply \<Rightarrow> error + generation_result" where
  "story_execute feature_id context generate_epic reply =
     (case reply of
        Inl e \<Rightarrow> Inl e
      | Inr response \<Rightarrow>
          (let epic = (if generate_epic then gr_epic response else None);
               stories = get_or (gr_stories response) [];
               total_story_points = sum_list (map (\<lambda>story. get_or (rs_story_points story) 0) stories);
               formatted_stories = map (\<lambda>(idx, story). format_story idx story) (enumerate 0 stories)
           in Inr \<lparr> res_feature_id = feature_id,
                    res_epic = epic,
                    res_stories = formatted_stories,
                    res_total_story_points = total_story_points,
                    res_story_count = length formatted_stories \<rparr>))"

subsection \<open>Prioritisation (\<^verbatim>\<open>PrioritizationAgent._prioritize_stories\<close>)\<close>

text \<open>A story dict as the assignment engine reads it.\<close>

record story =
  st_id :: "int option"
  st_title :: "string option"
  st_description :: "string option"
  st_story_points :: "nat option"
  st_priority :: "string option"
  st_dependencies :: "string list option"






subsection \<open>Strings\<close>

text \<open>
  \<^verbatim>\<open>str.lower()\<close> and \<^verbatim>\<open>k in t\<close> on ASCII text; a character outside \<open>A\<close>..\<open>Z\<close> is
  left as it is.
\<close>

definition lower_char :: "char \<Rightarrow> char" where
  "lower_char c =
     get_or (map_of (zip ''ABCDEFGHIJKLMNOPQRSTUVWXYZ'' ''abcdefghijklmnopqrstuvwxyz'') c) c"

definition lower :: "string \<Rightarrow> string" where
  "lower s = map lower_char s"

fun contains :: "string \<Rightarrow> string \<Rightarrow> bool" where
  "contains [] k = (k = [])"
| "contains (c # t) k = (take (length k) (c # t) = k \<or> contains t k)"

text \<open>\<^verbatim>\<open>str(n)\<close> for a non-negative integer.\<close>

definition digit_char :: "nat \<Rightarrow> char" where
  "digit_char d = ''0123456789'' ! d"

fun str_nat :: "nat \<Rightarrow> string" where
  "str_nat n = (if n < 10 then [digit_char n] else str_nat (n div 10) @ [digit_char (n mod 10)])"

declare str_nat.simps [simp del]

text \<open>\<^verbatim>\<open>s or t\<close> for an optional string: \<^verbatim>\<open>None\<close> and the empty string are falsy.\<close>

definition str_truthy :: "string option \<Rightarrow> bool" where
  "str_truthy s = (case s of None \<Rightarrow> False | Some x \<Rightarrow> x \<noteq> [])"

definition str_or :: "string option \<Rightarrow> string option \<Rightarrow> string option" where
  "str_or a b = (if str_truthy a then a else b)"

subsection \<open>Transcript triage (\<^verbatim>\<open>autoscrum/transcript_agent.py\<close>)\<close>

definition ACCESS_KEYWORDS :: "string list" where
  "ACCESS_KEYWORDS = [''access'', ''permission'', ''403'', ''401'', ''credentials'', ''vpn'',
     ''can't clone'', ''forbidden'', ''blocked'', ''cannot access'', ''no access'']"

definition HELP_KEYWORDS :: "string list" where
  "HELP_KEYWORDS = [''help'', ''pair'', ''review'', ''can someone'', ''assist'',
     ''please help'', ''need help'', ''assign'']"

definition PACE_KEYWORDS :: "string list" where
  "PACE_KEYWORDS = [''later'', ''not a priority'', ''will do later'', ''busy'', ''lack of time'',
     ''taking too long'', ''slow'', ''delay'', ''behind schedule'', ''haven't made progress'',
     ''no progress'']"

definition contains_any :: "string \<Rightarrow> string list \<Rightarrow> bool" where
  "contains_any text keywords =
     (if text = [] then False
      else (let t = lower text in list_ex (\<lambda>k. contains t (lower k)) keywords))"

text \<open>
  \<^verbatim>\<open>make_action_key\<close>. Python's built-in \<^verbatim>\<open>hash\<close> is not part of the repository: it is the
  parameter \<open>h\<close>, the string hash of the running interpreter.
\<close>

definition make_action_key ::
  "(string \<Rightarrow> int) \<Rightarrow> string \<Rightarrow> string option \<Rightarrow> string \<Rightarrow> string \<Rightarrow> string" where
  "make_action_key h person story diagnosis excerpt =
     (let base = person @ ''||'' @ (if str_truthy story then the story else ''NO_STORY'')
                   @ ''||'' @ diagnosis @ ''||'' @ take 200 excerpt
      in str_nat (nat \<bar>h base\<bar>))"

text \<open>The entry built for one utterance, and the transcript it is built from.\<close>

record event =
  ev_date :: "string option"
  ev_name :: "string option"
  ev_email :: "string option"
  ev_text :: string
  ev_jiras :: "string list"
  ev_access :: bool
  ev_help :: bool
  ev_pace :: bool

record participant =
  p_email :: "string option"
  p_name :: "string option"
  p_spoken_text :: "string list"

record day =
  d_date :: "string option"
  d_participants :: "participant list"

type_synonym timeline_key = "string option \<times> string option"
type_synonym timeline = "(timeline_key \<times> event list) list"

text \<open>\<^verbatim>\<open>timeline.setdefault(key, []).append(entry)\<close> on an insertion-ordered dict.\<close>

definition timeline_append :: "timeline_key \<Rightarrow> event \<Rightarrow> timeline \<Rightarrow> timeline" where
  "timeline_append key entry tline =
     (case map_of tline key of
        None \<Rightarrow> tline @ [(key, [entry])]
      | Some events \<Rightarrow> AList.update key (events @ [entry]) tline)"

text \<open>
  \<^verbatim>\<open>_merge_person_texts\<close>. The regular-expression search \<^verbatim>\<open>extract_jira_ids\<close> is the
  parameter \<open>extract\<close> (the \<^verbatim>\<open>re\<close> engine is a library).
\<close>

definition add_text ::
  "(string \<Rightarrow> string list) \<Rightarrow> string option \<Rightarrow> participant \<Rightarrow> string \<Rightarrow> timeline \<Rightarrow> timeline" where
  "add_text extract date p txt tline =
     (let email = str_or (p_email p) (p_name p);
          jiras = extract txt;
          entry = \<lparr> ev_date = date, ev_name = p_name p, ev_email = email, ev_text = txt,
                    ev_jiras = jiras,
                    ev_access = contains_any txt ACCESS_KEYWORDS,
                    ev_help = contains_any txt HELP_KEYWORDS,
                    ev_pace = contains_any txt PACE_KEYWORDS \<rparr>
      in if jiras \<noteq> []
         then fold (\<lambda>jid acc. timeline_append (email, Some jid) entry acc) jiras tline
         else timeline_append (email, None) entry tline)"

definition merge_person_texts :: "(string \<Rightarrow> string list) \<Rightarrow> day list \<Rightarrow> timeline" where
  "merge_person_texts extract transcripts =
     fold (\<lambda>d acc. fold (\<lambda>p acc'. fold (add_text extract (d_date d) p) (p_spoken_text p) acc')
                     (d_participants d) acc)
          transcripts []"

text \<open>The confidence heuristic and the diagnosis of \<^verbatim>\<open>process\<close>, for one timeline entry.\<close>

definition entry_confidence :: "string option \<Rightarrow> event list \<Rightarrow> rat" where
  "entry_confidence story events =
     (let access = list_ex ev_access events;
          help_req = list_ex ev_help events;
          pace = list_ex ev_pace events;
          mentions = int (length events);
          score0 = 0;
          score1 = (if str_truthy story then score0 + 12 / 10 else score0);
          score2 = (if access then score1 + 1 else score1);
          score3 = (if help_req then score2 + 9 / 10 else score2);
          score4 = (if pace then score3 + 7 / 10 else score3);
          score = score4 + (2 / 10) * of_int (mentions - 1)
      in min (score / 3) 1)"

definition entry_diagnosis :: "string option \<Rightarrow> event list \<Rightarrow> string" where
  "entry_diagnosis story events =
     (let access = list_ex ev_access events;
          help_req = list_ex ev_help events;
          pace = list_ex ev_pace events;
          confidence = entry_confidence story events
      in if access \<and> confidence \<ge> 3 / 10 then ''access''
         else if help_req \<and> confidence \<ge> 3 / 10 then ''needs_help''
         else if pace \<and> confidence \<ge> 7 / 10 then ''pace''
         else ''verify'')"

text \<open>The persisted idempotency record (\<^verbatim>\<open>TranscriptAction\<close>), keyed by its action key.\<close>

record payload =
  pl_person :: "string option"
  pl_story :: "string option"
  pl_excerpt :: string
  pl_confidence :: rat

record action_record =
  ar_person :: "string option"
  ar_story :: "string option"
  ar_diagnosis :: string
  ar_confidence :: rat
  ar_payload :: payload
  ar_response :: json

type_synonym action_db = "string \<Rightarrow> action_record option"

definition action_exists :: "action_db \<Rightarrow> string \<Rightarrow> bool" where
  "action_exists db action_key = (db action_key \<noteq> None)"

definition persist_action ::
  "action_db \<Rightarrow> string \<Rightarrow> string option \<Rightarrow> string option \<Rightarrow> string \<Rightarrow> rat \<Rightarrow> payload \<Rightarrow> json
     \<Rightarrow> action_db" where
  "persist_action db action_key person story diagnosis confidence pl response =
     (case db action_key of
        Some obj \<Rightarrow>
          db(action_key \<mapsto>
               \<lparr> ar_person = str_or person (ar_person obj),
                 ar_story = str_or story (ar_story obj),
                 ar_diagnosis = (if diagnosis \<noteq> [] then diagnosis else ar_diagnosis obj),
                 ar_confidence = confidence,
                 ar_payload = pl,
                 ar_response = (if truthy response then response else ar_response obj) \<rparr>)
      | None \<Rightarrow>
          db(action_key \<mapsto>
               \<lparr> ar_person = str_or person None,
                 ar_story = str_or story None,
                 ar_diagnosis = diagnosis,
                 ar_confidence = confidence,
                 ar_payload = pl,
                 ar_response = response \<rparr>))"

text \<open>
  An external dispatch: one invocation of \<^verbatim>\<open>_create_servicenow_incident\<close> or of
  \<^verbatim>\<open>_create_or_assign_jira_helper\<close>. Both catch every failure of the ticket tools and
  return a result document; what they return is the environment's answer, a parameter
  that may depend on the number of dispatches made so far.
\<close>

datatype dispatch_kind = Incident | Helper

record dispatch =
  dp_kind :: dispatch_kind
  dp_person :: "string option"
  dp_story :: "string option"
  dp_excerpt :: string
  dp_confidence :: rat

type_synonym tools = "nat \<Rightarrow> dispatch \<Rightarrow> json"

record decision =
  dc_person :: "string option"
  dc_story :: "string option"
  dc_diagnosis :: string
  dc_confidence :: rat
  dc_excerpt :: string
  dc_action_key :: string
  dc_result :: json

record triage_state =
  ts_decisions :: "decision list"
  ts_db :: action_db
  ts_calls :: "dispatch list"

text \<open>The body of the loop of \<^verbatim>\<open>process\<close>; \<^verbatim>\<open>events[-1]\<close> raises on an empty list.\<close>

definition process_entry ::
  "(string \<Rightarrow> int) \<Rightarrow> tools \<Rightarrow> timeline_key \<times> event list \<Rightarrow> triage_state
     \<Rightarrow> error + triage_state" where
  "process_entry h env item st =
     (case item of ((person, story), events) \<Rightarrow>
        if events = [] then Inl IndexError
        else
          (let excerpt = take 800 (ev_text (last events));
               confidence = entry_confidence story events;
               diagnosis = entry_diagnosis story events;
               action_key = make_action_key h (get_or person '''') story diagnosis excerpt
           in if action_exists (ts_db st) action_key then Inr st
              else
                (let pl = \<lparr> pl_person = person, pl_story = story, pl_excerpt = excerpt,
                             pl_confidence = confidence \<rparr>;
                     call = \<lparr> dp_kind = (if diagnosis = ''access'' then Incident else Helper),
                              dp_person = person, dp_story = story, dp_excerpt = excerpt,
                              dp_confidence = confidence \<rparr>;
                     result = env (length (ts_calls st)) call;
                     db' = persist_action (ts_db st) action_key person story diagnosis
                             confidence pl result
                 in Inr \<lparr> ts_decisions = ts_decisions st @
                            [\<lparr> dc_person = person, dc_story = story, dc_diagnosis = diagnosis,
                               dc_confidence = confidence, dc_excerpt = excerpt,
                               dc_action_key = action_key, dc_result = result \<rparr>],
                          ts_db = db',
                          ts_calls = ts_calls st @ [call] \<rparr>)))"

fun process_loop ::
  "(string \<Rightarrow> int) \<Rightarrow> tools \<Rightarrow> timeline \<Rightarrow> triage_state \<Rightarrow> error + triage_state" where
  "process_loop h env [] st = Inr st"
| "process_loop h env (item # rest) st =
     (case process_entry h env item st of
        Inl e \<Rightarrow> Inl e
      | Inr st' \<Rightarrow> process_loop h env rest st')"

text \<open>
  One run of the triage engine over a transcript, from the action table \<open>db\<close>: the
  decisions made, the table afterwards and the external dispatches issued.
\<close>

definition process ::
  "(string \<Rightarrow> int) \<Rightarrow> (string \<Rightarrow> string list) \<Rightarrow> tools \<Rightarrow> day list \<Rightarrow> action_db
     \<Rightarrow> error + triage_state" where
  "process h extract env transcripts db =
     process_loop h env (merge_person_texts extract transcripts)
       \<lparr> ts_decisions = [], ts_db = db, ts_calls = [] \<rparr>"

text \<open>The confidence and the diagnosis as the specification words them.\<close>

definition spec_score :: "bool \<Rightarrow> bool \<Rightarrow> bool \<Rightarrow> bool \<Rightarrow> nat \<Rightarrow> rat" where
  "spec_score has_ref access help pace mention_count =
     (12 / 10) * of_bool has_ref + 1 * of_bool access + (9 / 10) * of_bool help
       + (7 / 10) * of_bool pace + (2 / 10) * (of_nat mention_count - 1)"

definition spec_confidence :: "bool \<Rightarrow> bool \<Rightarrow> bool \<Rightarrow> bool \<Rightarrow> nat \<Rightarrow> rat" where
  "spec_confidence has_ref access help pace mention_count =
     min (spec_score has_ref access help pace mention_count / 3) 1"

definition spec_diagnosis :: "bool \<Rightarrow> bool \<Rightarrow> bool \<Rightarrow> rat \<Rightarrow> string" where
  "spec_diagnosis access help pace confidence =
     (if access \<and> confidence \<ge> 3 / 10 then ''access''
      else if help \<and> confidence \<ge> 3 / 10 then ''needs_help''
      else if pace \<and> confidence \<ge> 7 / 10 then ''pace''
      else ''verify'')"

text \<open>The action key \<^verbatim>\<open>process\<close> computes for a timeline entry.\<close>

definition entry_action_key :: "(string \<Rightarrow> int) \<Rightarrow> timeline_key \<times> event list \<Rightarrow> string" where
  "entry_action_key h item =
     (case item of ((person, story), events) \<Rightarrow>
        make_action_key h (get_or person '''') story (entry_diagnosis story events)
          (take 800 (ev_text (last events))))"

subsection \<open>Assignment (\<^verbatim>\<open>PrioritizationAgent\<close>)\<close>




























subsection \<open>The context store (\<^verbatim>\<open>memory/redis_client.py\<close>)\<close>

text \<open>
  The documents under the keys \<^verbatim>\<open>feature:<id>:context\<close>, each with the time to live it
  was last written with (\<^verbatim>\<open>setex\<close>). Expiry itself is the passage of time and is not
  modelled: an expired key is a key that is absent.
\<close>

type_synonym context_store = "(int \<times> dict \<times> nat) list"

definition get_feature_context :: "context_store \<Rightarrow> int \<Rightarrow> dict option" where
  "get_feature_context store feature_id = map_option fst (map_of store feature_id)"

definition stored_ttl :: "context_store \<Rightarrow> int \<Rightarrow> nat option" where
  "stored_ttl store feature_id = map_option snd (map_of store feature_id)"

definition set_feature_context_ttl :: "context_store \<Rightarrow> int \<Rightarrow> dict \<Rightarrow> nat \<Rightarrow> context_store" where
  "set_feature_context_ttl store feature_id context ttl =
     AList.update feature_id (context, ttl) store"

text \<open>\<^verbatim>\<open>set_feature_context(feature_id, context)\<close> with the default \<^verbatim>\<open>ttl=3600\<close>.\<close>

definition set_feature_context :: "context_store \<Rightarrow> int \<Rightarrow> dict \<Rightarrow> context_store" where
  "set_feature_context store feature_id context =
     set_feature_context_ttl store feature_id context 3600"

subsection \<open>Clarification (\<^verbatim>\<open>DynamicContextAgent\<close>)\<close>

record message =
  msg_role :: string
  msg_content :: "string option"

record clarify_input =
  in_feature_id :: int
  in_feature_name :: "string option"
  in_feature_description :: "string option"
  in_user_response :: "string option"
  in_conversation_history :: "message list"

text \<open>
  The reply to the question request, at the shape the prompt asks for: an object whose
  \<open>question\<close> is a string, \<open>is_complete\<close> a boolean and \<open>context_summary\<close> an
  object; a field is \<open>None\<close> when the key is missing or null (\<open>is_complete\<close> then
  counts as false).
\<close>

record llm_reply =
  lr_question :: "string option"
  lr_is_complete :: bool
  lr_context_summary :: "dict option"

record clarify_output =
  out_feature_id :: int
  out_question :: "string option"
  out_is_complete :: bool
  out_context_summary :: "dict option"
  out_conversation_history :: "message list"
  out_forced_completion :: "bool option"
  out_completion_reason :: "string option"

definition json_of_str :: "string option \<Rightarrow> json" where
  "json_of_str v = (case v of None \<Rightarrow> JNull | Some x \<Rightarrow> JStr x)"

definition json_strs :: "string list \<Rightarrow> json" where
  "json_strs xs = JList (map JStr xs)"

text \<open>\<^verbatim>\<open>not context_summary\<close>: no summary, or an empty one.\<close>

definition summary_truthy :: "dict option \<Rightarrow> bool" where
  "summary_truthy cs = (case cs of None \<Rightarrow> False | Some d \<Rightarrow> d \<noteq> [])"

text \<open>
  The stored counter as a number: a JSON integer, or a boolean (a Python \<^verbatim>\<open>bool\<close> is an
  \<^verbatim>\<open>int\<close>); comparing or adding anything else raises \<^verbatim>\<open>TypeError\<close>.
\<close>

definition as_number :: "json \<Rightarrow> int option" where
  "as_number v = (case v of JInt n \<Rightarrow> Some n | JBool b \<Rightarrow> Some (if b then 1 else 0) | _ \<Rightarrow> None)"

definition questions_asked_of :: "dict \<Rightarrow> int option" where
  "questions_asked_of context = as_number (get_or (dict_get context ''questions_asked'') (JInt 0))"

text \<open>
  \<^verbatim>\<open>_generate_context_summary\<close>. \<open>synth\<close> is the outcome of the summary request; it
  is only made when the history is not empty, and its failure is caught.
\<close>

definition generate_context_summary :: "message list \<Rightarrow> error + json \<Rightarrow> dict option" where
  "generate_context_summary conversation_history synth =
     (if conversation_history = [] then None
      else (case synth of
              Inl e \<Rightarrow> None
            | Inr summary_response \<Rightarrow>
                (case summary_response of
                   JObj d \<Rightarrow>
                     (case dict_get d ''context_summary'' of
                        Some (JObj inner) \<Rightarrow> Some inner
                      | _ \<Rightarrow> Some d)
                 | _ \<Rightarrow> None)))"

definition minimal_summary :: "dict \<Rightarrow> dict" where
  "minimal_summary context =
     [(''goals'', json_strs [''Feature implementation and delivery'']),
      (''user_personas'', json_strs [''End users'']),
      (''key_features'', JList [get_or (dict_get context ''feature_name'') (JStr ''Feature'')]),
      (''acceptance_criteria'', json_strs [''Feature meets basic requirements'']),
      (''technical_constraints'', json_strs [''Standard web application constraints'']),
      (''success_metrics'', json_strs [''Successful deployment and user adoption''])]"

definition force_completion ::
  "context_store \<Rightarrow> int \<Rightarrow> dict \<Rightarrow> message list \<Rightarrow> error + json
     \<Rightarrow> (error + clarify_output) \<times> context_store" where
  "force_completion store feature_id context conversation_history synth =
     (let generated = generate_context_summary conversation_history synth;
          context_summary = (if \<not> summary_truthy generated then minimal_summary context
                             else the generated);
          context1 = dict_update context context_summary;
          context2 = dict_set context1 ''context_summary'' (JObj context_summary);
          context3 = dict_set context2 ''is_complete'' (JBool True);
          context4 = dict_set context3 ''forced_completion'' (JBool True)
      in (Inr \<lparr> out_feature_id = feature_id,
                 out_question = None,
                 out_is_complete = True,
                 out_context_summary = Some context_summary,
                 out_conversation_history = conversation_history,
                 out_forced_completion = Some True,
                 out_completion_reason = Some ''Maximum question limit reached (5 questions)'' \<rparr>,
          set_feature_context store feature_id context4))"

definition canned_summary_request :: string where
  "canned_summary_request =
     ''Thanks for the detailed response! To finalize the clarification, '' @
     ''could you summarize the goals, key user personas, core features, '' @
     ''acceptance criteria, technical constraints, and success metrics?''"

definition canned_follow_up :: string where
  "canned_follow_up =
     ''Could you provide more details about the remaining aspects? '' @
     ''Please share information about the goals, user personas, key features, '' @
     ''acceptance criteria, technical constraints, and success metrics.''"

text \<open>\<^verbatim>\<open>context.get('feature_description', '')[:400]\<close> raises unless the value can be sliced.\<close>

definition sliceable :: "json \<Rightarrow> bool" where
  "sliceable v = (case v of JStr _ \<Rightarrow> True | JList _ \<Rightarrow> True | _ \<Rightarrow> False)"

text \<open>The first interaction: the history is empty.\<close>

definition first_call ::
  "context_store \<Rightarrow> clarify_input \<Rightarrow> dict \<Rightarrow> error + llm_reply
     \<Rightarrow> (error + clarify_output) \<times> context_store" where
  "first_call store inp context reply =
     (case reply of
        Inl e \<Rightarrow> (Inl e, store)
      | Inr response \<Rightarrow>
          (let feature_name = in_feature_name inp;
               feature_description = in_feature_description inp;
               history = [\<lparr> msg_role = ''user'',
                             msg_content = Some (''Feature: '' @ get_or feature_name ''None''
                                @ [CHR 0x0A] @ ''Description: ''
                                @ get_or feature_description ''None'') \<rparr>,
                          \<lparr> msg_role = ''assistant'',
                             msg_content = Some (get_or (lr_question response) '''') \<rparr>];
               context1 = dict_set context ''feature_name'' (json_of_str feature_name);
               context2 = dict_set context1 ''feature_description'' (json_of_str feature_description);
               context3 = dict_set context2 ''questions_asked'' (JInt 1)
           in (Inr \<lparr> out_feature_id = in_feature_id inp,
                      out_question = lr_question response,
                      out_is_complete = False,
                      out_context_summary = None,
                      out_conversation_history = history,
                      out_forced_completion = None,
                      out_completion_reason = None \<rparr>,
               set_feature_context store (in_feature_id inp) context3)))"

text \<open>
  A continuing interaction: the history is not empty. First what the call makes of the
  reply: the completion flag, the question and the summary, after the attempt to
  synthesise a missing summary and the canned questions.
\<close>

definition resolve_reply ::
  "llm_reply \<Rightarrow> message list \<Rightarrow> error + json \<Rightarrow> bool \<times> string option \<times> dict option" where
  "resolve_reply response history synth =
     (let is_complete0 = lr_is_complete response;
          question0 = lr_question response;
          summary0 = lr_context_summary response;
          synthesize = (is_complete0 \<and> \<not> summary_truthy summary0);
          context_summary = (if synthesize then generate_context_summary history synth
                             else summary0);
          gave_up = (synthesize \<and> \<not> summary_truthy context_summary);
          is_complete = (if gave_up then False else is_complete0);
          question1 = (if gave_up then Some canned_summary_request else question0);
          question = (if \<not> is_complete \<and> \<not> str_truthy question1
                      then Some canned_follow_up else question1)
      in (is_complete, question, context_summary))"

text \<open>The context update before the counter is incremented.\<close>

definition update_context :: "dict \<Rightarrow> bool \<Rightarrow> dict option \<Rightarrow> dict" where
  "update_context context is_complete context_summary =
     (if is_complete \<and> summary_truthy context_summary
      then dict_set
             (dict_set (dict_update context (the context_summary))
                ''context_summary'' (JObj (the context_summary)))
             ''is_complete'' (JBool True)
      else dict_set context ''is_complete'' (JBool False))"

definition continuing_call ::
  "context_store \<Rightarrow> clarify_input \<Rightarrow> dict \<Rightarrow> error + llm_reply \<Rightarrow> error + json
     \<Rightarrow> (error + clarify_output) \<times> context_store" where
  "continuing_call store inp context reply synth =
     (let history1 = in_conversation_history inp
                       @ [\<lparr> msg_role = ''user'', msg_content = in_user_response inp \<rparr>]
      in if \<not> sliceable (get_or (dict_get context ''feature_description'') (JStr ''''))
         then (Inl TypeError, store)
         else
           (case reply of
              Inl e \<Rightarrow> (Inl e, store)
            | Inr response \<Rightarrow>
                (case resolve_reply response history1 synth of
                   (is_complete, question, context_summary) \<Rightarrow>
                     (let history2 = (if \<not> is_complete \<and> str_truthy question
                                      then history1 @ [\<lparr> msg_role = ''assistant'',
                                                          msg_content = question \<rparr>]
                                      else history1);
                          context1 = update_context context is_complete context_summary
                      in case questions_asked_of context1 of
                           None \<Rightarrow> (Inl TypeError, store)
                         | Some n \<Rightarrow>
                             (Inr \<lparr> out_feature_id = in_feature_id inp,
                                     out_question = (if \<not> is_complete then question else None),
                                     out_is_complete = is_complete,
                                     out_context_summary =
                                       (if is_complete then context_summary else None),
                                     out_conversation_history = history2,
                                     out_forced_completion = None,
                                     out_completion_reason = None \<rparr>,
                              set_feature_context store (in_feature_id inp)
                                (dict_set context1 ''questions_asked'' (JInt (n + 1))))))))"

text \<open>
  \<^verbatim>\<open>execute\<close>. \<open>reply\<close> is the outcome of the question request and \<open>synth\<close> that of the
  summary request, should the call make them.
\<close>

definition execute ::
  "context_store \<Rightarrow> clarify_input \<Rightarrow> error + llm_reply \<Rightarrow> error + json
     \<Rightarrow> (error + clarify_output) \<times> context_store" where
  "execute store inp reply synth =
     (let feature_id = in_feature_id inp;
          conversation_history = in_conversation_history inp;
          context = get_or (get_feature_context store feature_id) []
      in case questions_asked_of context of
           None \<Rightarrow> (Inl TypeError, store)
         | Some questions_asked \<Rightarrow>
             if questions_asked \<ge> 5
             then force_completion store feature_id context conversation_history synth
             else if conversation_history = []
             then first_call store inp context reply
             else continuing_call store inp context reply synth)"

text \<open>The completion flag and the summary of a stored context.\<close>

definition stored_complete :: "context_store \<Rightarrow> int \<Rightarrow> bool" where
  "stored_complete store feature_id =
     (case get_feature_context store feature_id of
        None \<Rightarrow> False
      | Some context \<Rightarrow> truthy (get_or (dict_get context ''is_complete'') (JBool False)))"

definition stored_summary :: "context_store \<Rightarrow> int \<Rightarrow> dict option" where
  "stored_summary store feature_id =
     (case get_feature_context store feature_id of
        None \<Rightarrow> None
      | Some context \<Rightarrow>
          (case dict_get context ''context_summary'' of
             Some (JObj d) \<Rightarrow> Some d
           | _ \<Rightarrow> None))"

subsection \<open>The precondition of story generation (\<^verbatim>\<open>generate_from_feature_id\<close>)\<close>






text \<open>
  A sequence of clarification calls, each with the outcomes of its requests to the
  reasoning service; the bound on the stored counter; and the calls whose summaries do
  not themselves carry a \<open>questions_asked\<close> key (\<^verbatim>\<open>context.update\<close> would copy it).
\<close>

definition counter_ok :: "context_store \<Rightarrow> int \<Rightarrow> bool" where
  "counter_ok store feature_id =
     (case questions_asked_of (get_or (get_feature_context store feature_id) []) of
        None \<Rightarrow> False
      | Some n \<Rightarrow> n \<le> 5)"

definition binds_counter :: "dict option \<Rightarrow> bool" where
  "binds_counter cs = (case cs of None \<Rightarrow> False | Some d \<Rightarrow> dict_has d ''questions_asked'')"

record call =
  c_input :: clarify_input
  c_reply :: "error + llm_reply"
  c_synth :: "error + json"

definition clean_call :: "call \<Rightarrow> bool" where
  "clean_call c =
     (\<not> binds_counter (case c_reply c of Inl e \<Rightarrow> None | Inr r \<Rightarrow> lr_context_summary r)
      \<and> \<not> binds_counter (generate_context_summary
            (in_conversation_history (c_input c)
               @ [\<lparr> msg_role = ''user'', msg_content = in_user_response (c_input c) \<rparr>])
            (c_synth c))
      \<and> \<not> binds_counter (generate_context_summary
            (in_conversation_history (c_input c)) (c_synth c)))"

fun run_calls :: "context_store \<Rightarrow> call list \<Rightarrow> context_store" where
  "run_calls store [] = store"
| "run_calls store (c # cs) =
     run_calls (snd (execute store (c_input c) (c_reply c) (c_synth c))) cs"

section \<open>Theorems\<close>

subsection \<open>Prioritisation order\<close>



subsection \<open>Story generation output\<close>

lemma sum_formatted_points:
  "sum_list (map fs_story_points (map (\<lambda>(idx, story). format_story idx story) (enumerate n stories)))
     = sum_list (map (\<lambda>story. get_or (rs_story_points story) 0) stories)
       + 3 * length (filter (\<lambda>story. rs_story_points story = None) stories)"
  by (induction stories arbitrary: n) (auto simp: format_story_def get_or_def split: option.splits)

text \<open>
  Claim C10. For every reply of the reasoning service the engine returns one formatted
  story per reply story, in the same order, with \<open>order\<close> the 1-based position,
  \<open>story_points\<close> defaulting to 3 and \<open>priority\<close> to \<open>medium\<close>; the reported total
  counts a missing \<open>story_points\<close> as 0, so it equals the sum over the returned stories
  exactly when every reply story carries \<open>story_points\<close>.
\<close>

theorem story_execute_format_and_total:
  "\<exists>res. story_execute fid ctx ge (Inr reply) = Inr res
     \<and> length (res_stories res) = length (get_or (gr_stories reply) [])
     \<and> (\<forall>i < length (get_or (gr_stories reply) []).
          fs_order (res_stories res ! i) = i + 1
        \<and> fs_title (res_stories res ! i) = get_or (rs_title (get_or (gr_stories reply) [] ! i)) ''''
        \<and> fs_story_points (res_stories res ! i)
            = get_or (rs_story_points (get_or (gr_stories reply) [] ! i)) 3
        \<and> fs_priority (res_stories res ! i)
            = get_or (rs_priority (get_or (gr_stories reply) [] ! i)) ''medium'')
     \<and> res_total_story_points res
          = sum_list (map (\<lambda>s. get_or (rs_story_points s) 0) (get_or (gr_stories reply) []))
     \<and> (res_total_story_points res = sum_list (map fs_story_points (res_stories res))
          \<longleftrightarrow> (\<forall>s \<in> set (get_or (gr_stories reply) []). rs_story_points s \<noteq> None))"
proof -
  define raw where "raw = get_or (gr_stories reply) []"
  define res where "res = \<lparr> res_feature_id = fid,
                    res_epic = (if ge then gr_epic reply else None),
                    res_stories = map (\<lambda>(idx, story). format_story idx story) (enumerate 0 raw),
                    res_total_story_points = sum_list (map (\<lambda>story. get_or (rs_story_points story) 0) raw),
                    res_story_count = length raw \<rparr>"
  have run: "story_execute fid ctx ge (Inr reply) = Inr res"
    by (simp add: story_execute_def res_def raw_def Let_def)
  have len: "length (res_stories res) = length raw" by (simp add: res_def)
  have nth: "res_stories res ! i = format_story i (raw ! i)" if "i < length raw" for i
    using that by (simp add: res_def nth_enumerate_eq)
  have tot: "res_total_story_points res = sum_list (map (\<lambda>s. get_or (rs_story_points s) 0) raw)"
    by (simp add: res_def)
  have "sum_list (map fs_story_points (res_stories res))
          = res_total_story_points res + 3 * length (filter (\<lambda>s. rs_story_points s = None) raw)"
    using sum_formatted_points[of 0 raw] by (simp add: res_def)
  then have iff: "res_total_story_points res = sum_list (map fs_story_points (res_stories res))
          \<longleftrightarrow> (\<forall>s \<in> set raw. rs_story_points s \<noteq> None)"
    by (auto simp: filter_empty_conv)
  show ?thesis
    unfolding raw_def[symmetric]
    using run len tot iff nth by (intro exI[of _ res]) (simp add: format_story_def)
qed

theorem story_execute_format_and_total_witness:
  "\<exists>res. story_execute 7 [] True
            (Inr \<lparr> gr_epic = None,
                   gr_stories = Some
                     [\<lparr> rs_title = Some ''Login'', rs_description = None,
                        rs_acceptance_criteria = None, rs_story_points = Some 5,
                        rs_priority = Some ''high'', rs_dependencies = None \<rparr>,
                      \<lparr> rs_title = None, rs_description = None,
                        rs_acceptance_criteria = None, rs_story_points = None,
                        rs_priority = None, rs_dependencies = None \<rparr>] \<rparr>) = Inr res
     \<and> length (res_stories res) = 2
     \<and> fs_order (res_stories res ! 1) = 2
     \<and> fs_story_points (res_stories res ! 1) = 3
     \<and> fs_priority (res_stories res ! 1) = ''medium''
     \<and> res_total_story_points res = 5
     \<and> res_total_story_points res \<noteq> sum_list (map fs_story_points (res_stories res))"
  using story_execute_format_and_total [of 7 "[]" True
            "\<lparr> gr_epic = None,
                   gr_stories = Some
                     [\<lparr> rs_title = Some ''Login'', rs_description = None,
                        rs_acceptance_criteria = None, rs_story_points = Some 5,
                        rs_priority = Some ''high'', rs_dependencies = None \<rparr>,
                      \<lparr> rs_title = None, rs_description = None,
                        rs_acceptance_criteria = None, rs_story_points = None,
                        rs_priority = None, rs_dependencies = None \<rparr>] \<rparr>"]
  by (auto simp: get_or_def)

subsection \<open>Transcript triage\<close>

lemma entry_confidence_spec:
  "entry_confidence story events
     = spec_confidence (str_truthy story) (list_ex ev_access events) (list_ex ev_help events)
         (list_ex ev_pace events) (length events)"
  by (simp add: entry_confidence_def spec_confidence_def spec_score_def Let_def)

lemma entry_diagnosis_spec:
  "entry_diagnosis story events
     = spec_diagnosis (list_ex ev_access events) (list_ex ev_help events)
         (list_ex ev_pace events) (entry_confidence story events)"
  by (simp add: entry_diagnosis_def spec_diagnosis_def Let_def)

lemma process_entry_skip:
  "events \<noteq> [] \<Longrightarrow> action_exists (ts_db st) (entry_action_key h ((person, story), events))
     \<Longrightarrow> process_entry h env ((person, story), events) st = Inr st"
  by (simp add: process_entry_def entry_action_key_def Let_def)

lemma process_entry_new:
  assumes "events \<noteq> []" "\<not> action_exists (ts_db st) (entry_action_key h ((person, story), events))"
  shows "\<exists>st'. process_entry h env ((person, story), events) st = Inr st'
           \<and> length (ts_calls st') = length (ts_calls st) + 1
           \<and> action_exists (ts_db st') (entry_action_key h ((person, story), events))
           \<and> (\<forall>k. action_exists (ts_db st) k \<longrightarrow> action_exists (ts_db st') k)
           \<and> dc_confidence (last (ts_decisions st')) = entry_confidence story events
           \<and> dc_diagnosis (last (ts_decisions st')) = entry_diagnosis story events"
  using assms
  by (simp add: process_entry_def entry_action_key_def Let_def persist_action_def action_exists_def)

lemma process_entry_grows:
  assumes "snd item \<noteq> []"
  shows "\<exists>st'. process_entry h env item st = Inr st'
           \<and> action_exists (ts_db st') (entry_action_key h item)
           \<and> (\<forall>k. action_exists (ts_db st) k \<longrightarrow> action_exists (ts_db st') k)"
proof -
  obtain person story events where item: "item = ((person, story), events)"
    by (cases item) auto
  show ?thesis
  proof (cases "action_exists (ts_db st) (entry_action_key h item)")
    case True
    then show ?thesis using assms process_entry_skip[of events st h person story env]
      by (simp add: item)
  next
    case False
    then show ?thesis using assms process_entry_new[of events st h person story env]
      by (auto simp add: item)
  qed
qed

lemma process_loop_grows:
  assumes "\<forall>item \<in> set tline. snd item \<noteq> []"
  shows "\<exists>st'. process_loop h env tline st = Inr st'
           \<and> (\<forall>item \<in> set tline. action_exists (ts_db st') (entry_action_key h item))
           \<and> (\<forall>k. action_exists (ts_db st) k \<longrightarrow> action_exists (ts_db st') k)"
  using assms
proof (induction tline arbitrary: st)
  case Nil
  then show ?case by simp
next
  case (Cons item rest)
  from Cons.prems have ne: "snd item \<noteq> []" and rest: "\<forall>i \<in> set rest. snd i \<noteq> []" by auto
  from process_entry_grows[OF ne, of h env st] obtain st1 where
    s1: "process_entry h env item st = Inr st1"
    and k1: "action_exists (ts_db st1) (entry_action_key h item)"
    and m1: "\<forall>k. action_exists (ts_db st) k \<longrightarrow> action_exists (ts_db st1) k" by blast
  from Cons.IH[OF rest, of st1] obtain st2 where
    s2: "process_loop h env rest st1 = Inr st2"
    and k2: "\<forall>i \<in> set rest. action_exists (ts_db st2) (entry_action_key h i)"
    and m2: "\<forall>k. action_exists (ts_db st1) k \<longrightarrow> action_exists (ts_db st2) k" by blast
  show ?case using s1 s2 k1 k2 m1 m2 by auto
qed

lemma process_loop_all_known:
  assumes "\<forall>item \<in> set tline. snd item \<noteq> []"
    and "\<forall>item \<in> set tline. action_exists (ts_db st) (entry_action_key h item)"
  shows "process_loop h env tline st = Inr st"
  using assms
proof (induction tline)
  case Nil
  then show ?case by simp
next
  case (Cons item rest)
  obtain person story events where item: "item = ((person, story), events)"
    by (cases item) auto
  have "process_entry h env item st = Inr st"
    using Cons.prems process_entry_skip[of events st h person story env] by (simp add: item)
  then show ?case using Cons by simp
qed

lemma update_events_nonempty:
  "\<forall>item \<in> set tline. snd item \<noteq> [] \<Longrightarrow> v \<noteq> []
     \<Longrightarrow> \<forall>item \<in> set (AList.update k v tline). snd item \<noteq> []"
  by (induction tline) auto

lemma timeline_append_nonempty:
  assumes "\<forall>item \<in> set tline. snd item \<noteq> []"
  shows "\<forall>item \<in> set (timeline_append key entry tline). snd item \<noteq> []"
proof (cases "map_of tline key")
  case None
  then show ?thesis using assms by (auto simp: timeline_append_def)
next
  case (Some es)
  have "es @ [entry] \<noteq> []" by simp
  from update_events_nonempty[OF assms this, of key]
  show ?thesis using Some by (simp add: timeline_append_def)
qed

lemma fold_nonempty:
  assumes step: "\<And>x acc. \<forall>item \<in> set acc. snd item \<noteq> [] \<Longrightarrow> \<forall>item \<in> set (f x acc). snd item \<noteq> []"
    and "\<forall>item \<in> set acc. snd item \<noteq> []"
  shows "\<forall>item \<in> set (fold f xs acc). snd item \<noteq> []"
  using assms(2)
proof (induction xs arbitrary: acc)
  case Nil then show ?case by simp
next
  case (Cons x xs)
  show ?case using Cons.IH[OF step[OF Cons.prems]] by simp
qed

lemma add_text_nonempty:
  assumes "\<forall>item \<in> set tline. snd item \<noteq> []"
  shows "\<forall>item \<in> set (add_text extract date p txt tline). snd item \<noteq> []"
proof (cases "extract txt = []")
  case True
  then show ?thesis
    using timeline_append_nonempty[OF assms] by (simp add: add_text_def Let_def)
next
  case False
  have "\<forall>item \<in> set (fold (\<lambda>jid acc. timeline_append (k jid) e acc) js tline). snd item \<noteq> []"
    for k :: "string \<Rightarrow> timeline_key" and e js
    by (rule fold_nonempty[OF _ assms]) (rule timeline_append_nonempty)
  then show ?thesis using False by (simp add: add_text_def Let_def)
qed

lemma merge_person_texts_nonempty:
  "\<forall>item \<in> set (merge_person_texts extract transcripts). snd item \<noteq> []"
  unfolding merge_person_texts_def
  by (intro fold_nonempty add_text_nonempty) simp_all

text \<open>
  Re-running under one string hash. (1) A run over a transcript returns, and a second
  run over the same transcript, with the same hash \<open>h\<close> and from the action table
  the first one left, makes no decision, issues no external dispatch and leaves the table
  as it is, whatever the ticket tools answer. (2) For a given \<open>h\<close> the action key is a
  function of the speaker, the ticket reference or \<open>NO_STORY\<close>, the diagnosis and the
  first 200 characters of the excerpt. (3) An entry whose key is already in the table is
  skipped: the state is returned unchanged.
\<close>

lemma triage_rerun_same_hash:
  "(\<exists>st1. process h extract env1 transcripts db0 = Inr st1
      \<and> process h extract env2 transcripts (ts_db st1)
          = Inr \<lparr> ts_decisions = [], ts_db = ts_db st1, ts_calls = [] \<rparr>)
   \<and> (\<exists>f. \<forall>person story diagnosis excerpt.
          make_action_key h person story diagnosis excerpt
            = f (person, (if str_truthy story then the story else ''NO_STORY''), diagnosis,
                 take 200 excerpt))
   \<and> (\<forall>person story events st env.
        events \<noteq> [] \<and> action_exists (ts_db st)
            (make_action_key h (get_or person '''') story (entry_diagnosis story events)
               (take 800 (ev_text (last events))))
        \<longrightarrow> process_entry h env ((person, story), events) st = Inr st)"
proof (intro conjI)
  let ?tl = "merge_person_texts extract transcripts"
  let ?s0 = "\<lparr> ts_decisions = [], ts_db = db0, ts_calls = [] \<rparr>"
  have ne: "\<forall>item \<in> set ?tl. snd item \<noteq> []" by (rule merge_person_texts_nonempty)
  from process_loop_grows[OF ne, of h env1 ?s0] obtain st1 where
    r1: "process_loop h env1 ?tl ?s0 = Inr st1"
    and known: "\<forall>item \<in> set ?tl. action_exists (ts_db st1) (entry_action_key h item)" by blast
  let ?s1 = "\<lparr> ts_decisions = [], ts_db = ts_db st1, ts_calls = [] \<rparr>"
  have "process_loop h env2 ?tl ?s1 = Inr ?s1"
    by (rule process_loop_all_known[OF ne]) (use known in simp)
  then show "\<exists>st1. process h extract env1 transcripts db0 = Inr st1
      \<and> process h extract env2 transcripts (ts_db st1)
          = Inr \<lparr> ts_decisions = [], ts_db = ts_db st1, ts_calls = [] \<rparr>"
    using r1 by (simp add: process_def)
next
  show "\<exists>f. \<forall>person story diagnosis excerpt.
          make_action_key h person story diagnosis excerpt
            = f (person, (if str_truthy story then the story else ''NO_STORY''), diagnosis,
                 take 200 excerpt)"
    by (rule exI[of _ "\<lambda>(p, s, d, e). str_nat (nat \<bar>h (p @ ''||'' @ s @ ''||'' @ d @ ''||'' @ e)\<bar>)"])
       (simp add: make_action_key_def Let_def)
next
  show "\<forall>person story events st env.
        events \<noteq> [] \<and> action_exists (ts_db st)
            (make_action_key h (get_or person '''') story (entry_diagnosis story events)
               (take 800 (ev_text (last events))))
        \<longrightarrow> process_entry h env ((person, story), events) st = Inr st"
    by (simp add: process_entry_def Let_def)
qed


lemma triage_rerun_same_hash_example:
  "(\<exists>st1. process (\<lambda>s. int (length s)) (\<lambda>t. [''PROJ-1'']) (\<lambda>n c. JNull)
            [\<lparr> d_date = Some ''2024-01-01'',
               d_participants = [\<lparr> p_email = Some ''a@x'', p_name = Some ''A'',
                                   p_spoken_text = [''vpn''] \<rparr>] \<rparr>]
            (\<lambda>k. None) = Inr st1
      \<and> length (ts_calls st1) = 1
      \<and> process (\<lambda>s. int (length s)) (\<lambda>t. [''PROJ-1'']) (\<lambda>n c. JNull)
            [\<lparr> d_date = Some ''2024-01-01'',
               d_participants = [\<lparr> p_email = Some ''a@x'', p_name = Some ''A'',
                                   p_spoken_text = [''vpn''] \<rparr>] \<rparr>]
            (ts_db st1)
          = Inr \<lparr> ts_decisions = [], ts_db = ts_db st1, ts_calls = [] \<rparr>)
   \<and> process_entry (\<lambda>s. int (length s)) (\<lambda>n c. JNull)
        ((Some ''a@x'', None),
         [\<lparr> ev_date = None, ev_name = None, ev_email = Some ''a@x'', ev_text = ''need help'',
            ev_jiras = [], ev_access = False, ev_help = True, ev_pace = False \<rparr>])
        \<lparr> ts_decisions = [],
          ts_db = (\<lambda>k. Some \<lparr> ar_person = None, ar_story = None, ar_diagnosis = ''verify'',
                               ar_confidence = 0,
                               ar_payload = \<lparr> pl_person = None, pl_story = None,
                                              pl_excerpt = '''', pl_confidence = 0 \<rparr>,
                               ar_response = JNull \<rparr>),
          ts_calls = [] \<rparr>
      = Inr \<lparr> ts_decisions = [],
          ts_db = (\<lambda>k. Some \<lparr> ar_person = None, ar_story = None, ar_diagnosis = ''verify'',
                               ar_confidence = 0,
                               ar_payload = \<lparr> pl_person = None, pl_story = None,
                                              pl_excerpt = '''', pl_confidence = 0 \<rparr>,
                               ar_response = JNull \<rparr>),
          ts_calls = [] \<rparr>"
proof -
  let ?h = "\<lambda>s::string. int (length s)"
  let ?ex = "\<lambda>t::string. [''PROJ-1'']"
  let ?env = "(\<lambda>n c. JNull) :: tools"
  let ?T = "[\<lparr> d_date = Some ''2024-01-01'',
               d_participants = [\<lparr> p_email = Some ''a@x'', p_name = Some ''A'',
                                   p_spoken_text = [''vpn''] \<rparr>] \<rparr>]"
  let ?ev = "\<lparr> ev_date = None, ev_name = None, ev_email = Some ''a@x'', ev_text = ''need help'',
            ev_jiras = [], ev_access = False, ev_help = True, ev_pace = False \<rparr>"
  let ?st = "\<lparr> ts_decisions = [],
          ts_db = (\<lambda>k. Some \<lparr> ar_person = None, ar_story = None, ar_diagnosis = ''verify'',
                               ar_confidence = 0,
                               ar_payload = \<lparr> pl_person = None, pl_story = None,
                                              pl_excerpt = '''', pl_confidence = 0 \<rparr>,
                               ar_response = JNull \<rparr>),
          ts_calls = [] \<rparr>"
  note inst = triage_rerun_same_hash[of ?h ?ex ?env ?T "\<lambda>k. None" ?env]
  have run: "\<exists>st1. process ?h ?ex ?env ?T (\<lambda>k. None) = Inr st1 \<and> length (ts_calls st1) = 1"
    by (simp add: process_def merge_person_texts_def add_text_def timeline_append_def
        process_entry_def action_exists_def Let_def)
  have twice: "\<exists>st1. process ?h ?ex ?env ?T (\<lambda>k. None) = Inr st1 \<and> length (ts_calls st1) = 1
      \<and> process ?h ?ex ?env ?T (ts_db st1)
          = Inr \<lparr> ts_decisions = [], ts_db = ts_db st1, ts_calls = [] \<rparr>"
    using inst run by auto
  have known: "[?ev] \<noteq> [] \<and> action_exists (ts_db ?st)
            (make_action_key ?h (get_or (Some ''a@x'') '''') None (entry_diagnosis None [?ev])
               (take 800 (ev_text (last [?ev]))))"
    by (simp add: action_exists_def)
  have skip: "process_entry ?h ?env ((Some ''a@x'', None), [?ev]) ?st = Inr ?st"
    using inst known by blast
  show ?thesis using twice skip by blast
qed

lemma example_timeline:
  "merge_person_texts (\<lambda>t. [''PROJ-1''])
        [\<lparr> d_date = Some ''2024-01-01'',
           d_participants = [\<lparr> p_email = Some ''a@x'', p_name = Some ''A'',
                               p_spoken_text = [''vpn''] \<rparr>] \<rparr>]
   = [((Some ''a@x'', Some ''PROJ-1''),
       [\<lparr> ev_date = Some ''2024-01-01'', ev_name = Some ''A'', ev_email = Some ''a@x'',
          ev_text = ''vpn'', ev_jiras = [''PROJ-1''],
          ev_access = True, ev_help = False, ev_pace = False \<rparr>])]"
  by code_simp

lemma example_keys:
  "make_action_key (\<lambda>s. int (length s)) ''a@x'' (Some ''PROJ-1'') ''access'' ''vpn'' = ''24''"
  "make_action_key (\<lambda>s. int (length s) + 1) ''a@x'' (Some ''PROJ-1'') ''access'' ''vpn'' = ''25''"
  by (simp_all add: make_action_key_def str_truthy_def str_nat.simps digit_char_def)

text \<open>
  Claim C3 at a failing input. The action key is \<^verbatim>\<open>str(abs(hash(base)))\<close>, and Python
  salts the hash of a string anew in every interpreter process, while the action table
  is a database that outlives the process. The same transcript is processed twice, by
  two processes whose string hashes differ on the key text (here by one): the second run
  computes another key, finds no record, dispatches the incident a second time and adds
  a second record.
\<close>

theorem triage_rerun_other_hash:
  "\<exists>st1 st2.
     process (\<lambda>s. int (length s)) (\<lambda>t. [''PROJ-1'']) (\<lambda>n c. JNull)
        [\<lparr> d_date = Some ''2024-01-01'',
           d_participants = [\<lparr> p_email = Some ''a@x'', p_name = Some ''A'',
                               p_spoken_text = [''vpn''] \<rparr>] \<rparr>]
        (\<lambda>k. None) = Inr st1
   \<and> length (ts_calls st1) = 1
   \<and> map dc_action_key (ts_decisions st1) = [''24'']
   \<and> process (\<lambda>s. int (length s) + 1) (\<lambda>t. [''PROJ-1'']) (\<lambda>n c. JNull)
        [\<lparr> d_date = Some ''2024-01-01'',
           d_participants = [\<lparr> p_email = Some ''a@x'', p_name = Some ''A'',
                               p_spoken_text = [''vpn''] \<rparr>] \<rparr>]
        (ts_db st1) = Inr st2
   \<and> length (ts_calls st2) = 1
   \<and> map dc_diagnosis (ts_decisions st2) = [''access'']
   \<and> map dc_action_key (ts_decisions st2) = [''25'']
   \<and> ts_db st2 ''24'' \<noteq> None \<and> ts_db st2 ''25'' \<noteq> None"
proof -
  let ?ev = "\<lparr> ev_date = Some ''2024-01-01'', ev_name = Some ''A'', ev_email = Some ''a@x'',
          ev_text = ''vpn'', ev_jiras = [''PROJ-1''],
          ev_access = True, ev_help = False, ev_pace = False \<rparr>"
  have diag: "entry_diagnosis (Some ''PROJ-1'') [?ev] = ''access''"
    by (simp add: entry_diagnosis_def entry_confidence_def str_truthy_def Let_def)
  show ?thesis
    unfolding process_def example_timeline
    by (simp add: process_entry_def diag example_keys action_exists_def persist_action_def
        get_or_def Let_def)
qed

text \<open>
  Claim C7. For a timeline entry the engine computes
  \<open>confidence = min (score / 3) 1\<close> with \<open>score\<close> = 1.2 for a ticket reference, plus
  1.0, 0.9 and 0.7 for the access, help and pace flag of any of its events, plus
  0.2 for each event after the first; the diagnosis is \<open>access\<close>, \<open>needs_help\<close>,
  \<open>pace\<close> or \<open>verify\<close> by the thresholds 0.3, 0.3 and 0.7 in that order; and the
  decision recorded for an entry that is not a duplicate carries both.
\<close>

theorem triage_confidence_and_diagnosis:
  "entry_confidence story events
     = spec_confidence (str_truthy story) (list_ex ev_access events) (list_ex ev_help events)
         (list_ex ev_pace events) (length events)
   \<and> entry_diagnosis story events
     = spec_diagnosis (list_ex ev_access events) (list_ex ev_help events)
         (list_ex ev_pace events)
         (spec_confidence (str_truthy story) (list_ex ev_access events) (list_ex ev_help events)
            (list_ex ev_pace events) (length events))
   \<and> (events \<noteq> [] \<and> \<not> action_exists (ts_db st)
            (make_action_key h (get_or person '''') story (entry_diagnosis story events)
               (take 800 (ev_text (last events))))
      \<longrightarrow> (\<exists>st'. process_entry h env ((person, story), events) st = Inr st'
             \<and> dc_confidence (last (ts_decisions st'))
                 = spec_confidence (str_truthy story) (list_ex ev_access events)
                     (list_ex ev_help events) (list_ex ev_pace events) (length events)
             \<and> dc_diagnosis (last (ts_decisions st'))
                 = spec_diagnosis (list_ex ev_access events) (list_ex ev_help events)
                     (list_ex ev_pace events)
                     (spec_confidence (str_truthy story) (list_ex ev_access events)
                        (list_ex ev_help events) (list_ex ev_pace events) (length events))))"
proof -
  have c: "entry_confidence story events
     = spec_confidence (str_truthy story) (list_ex ev_access events) (list_ex ev_help events)
         (list_ex ev_pace events) (length events)"
    by (rule entry_confidence_spec)
  have d: "entry_diagnosis story events
     = spec_diagnosis (list_ex ev_access events) (list_ex ev_help events)
         (list_ex ev_pace events)
         (spec_confidence (str_truthy story) (list_ex ev_access events) (list_ex ev_help events)
            (list_ex ev_pace events) (length events))"
    using entry_diagnosis_spec[of story events] by (simp add: c)
  have e: "\<exists>st'. process_entry h env ((person, story), events) st = Inr st'
             \<and> dc_confidence (last (ts_decisions st')) = entry_confidence story events
             \<and> dc_diagnosis (last (ts_decisions st')) = entry_diagnosis story events"
    if "events \<noteq> []" "\<not> action_exists (ts_db st)
            (make_action_key h (get_or person '''') story (entry_diagnosis story events)
               (take 800 (ev_text (last events))))"
    using process_entry_new[of events st h person story env] that
    by (auto simp: entry_action_key_def)
  show ?thesis using c d e by metis
qed

theorem triage_confidence_and_diagnosis_witness:
  "\<exists>st'. process_entry (\<lambda>s. int (length s)) (\<lambda>n c. JNull)
       ((Some ''a@x'', Some ''PROJ-1''),
        [\<lparr> ev_date = None, ev_name = None, ev_email = Some ''a@x'', ev_text = ''vpn blocked'',
            ev_jiras = [''PROJ-1''], ev_access = True, ev_help = False, ev_pace = False \<rparr>])
       \<lparr> ts_decisions = [], ts_db = (\<lambda>k. None), ts_calls = [] \<rparr> = Inr st'
     \<and> dc_confidence (last (ts_decisions st')) = 11 / 15
     \<and> dc_diagnosis (last (ts_decisions st')) = ''access''"
proof -
  let ?ev = "\<lparr> ev_date = None, ev_name = None, ev_email = Some ''a@x'', ev_text = ''vpn blocked'',
            ev_jiras = [''PROJ-1''], ev_access = True, ev_help = False, ev_pace = False \<rparr>"
  let ?st = "\<lparr> ts_decisions = [], ts_db = (\<lambda>k. None), ts_calls = [] \<rparr>"
  let ?h = "\<lambda>s::string. int (length s)"
  have fresh: "[?ev] \<noteq> [] \<and> \<not> action_exists (ts_db ?st)
            (make_action_key ?h (get_or (Some ''a@x'') '''') (Some ''PROJ-1'')
               (entry_diagnosis (Some ''PROJ-1'') [?ev]) (take 800 (ev_text (last [?ev]))))"
    by (simp add: action_exists_def)
  have conf: "spec_confidence (str_truthy (Some ''PROJ-1'')) (list_ex ev_access [?ev])
      (list_ex ev_help [?ev]) (list_ex ev_pace [?ev]) (length [?ev]) = 11 / 15"
    by (simp add: spec_confidence_def spec_score_def str_truthy_def)
  have diag: "spec_diagnosis (list_ex ev_access [?ev]) (list_ex ev_help [?ev])
      (list_ex ev_pace [?ev]) (11 / 15) = ''access''"
    by (simp add: spec_diagnosis_def)
  from triage_confidence_and_diagnosis[of "Some ''PROJ-1''" "[?ev]" ?st ?h "Some ''a@x''" "\<lambda>n c. JNull"]
    fresh
  have "\<exists>st'. process_entry ?h (\<lambda>n c. JNull) ((Some ''a@x'', Some ''PROJ-1''), [?ev]) ?st = Inr st'
     \<and> dc_confidence (last (ts_decisions st'))
          = spec_confidence (str_truthy (Some ''PROJ-1'')) (list_ex ev_access [?ev])
      (list_ex ev_help [?ev]) (list_ex ev_pace [?ev]) (length [?ev])
     \<and> dc_diagnosis (last (ts_decisions st'))
          = spec_diagnosis (list_ex ev_access [?ev]) (list_ex ev_help [?ev])
      (list_ex ev_pace [?ev]) (spec_confidence (str_truthy (Some ''PROJ-1'')) (list_ex ev_access [?ev])
      (list_ex ev_help [?ev]) (list_ex ev_pace [?ev]) (length [?ev]))"
    by blast
  then show ?thesis unfolding conf diag .
qed

subsection \<open>Assignment\<close>



















subsection \<open>Clarification\<close>

lemma dict_get_set [simp]:
  "dict_get (dict_set d k v) k' = (if k' = k then Some v else dict_get d k')"
  by (simp add: dict_get_def dict_set_def update_conv')

lemma dict_has_set [simp]: "dict_has (dict_set d k v) k' = (k' = k \<or> dict_has d k')"
  by (auto simp: dict_has_def dict_set_def dom_update)

lemma dict_get_update:
  "dict_get (dict_update d e) k = (case map_of (rev e) k of Some v \<Rightarrow> Some v | None \<Rightarrow> dict_get d k)"
  unfolding dict_update_def dict_get_def
proof (induction e arbitrary: d)
  case Nil
  then show ?case by simp
next
  case (Cons p e)
  obtain a b where p: "p = (a, b)" by (cases p)
  show ?case
    by (simp add: p Cons update_conv' map_add_def split: option.splits)
qed

lemma get_set_store [simp]:
  "get_feature_context (set_feature_context store fid ctx) fid = Some ctx"
  "stored_ttl (set_feature_context store fid ctx) fid = Some 3600"
  by (simp_all add: get_feature_context_def stored_ttl_def set_feature_context_def
      set_feature_context_ttl_def update_conv')




lemma resolve_reply_summary:
  "resolve_reply response history synth = (c, q, cs) \<Longrightarrow> c \<Longrightarrow> summary_truthy cs"
  by (auto simp: resolve_reply_def Let_def split: if_splits)







text \<open>
  What does hold of the counter and of the summary: the stored counter stays at most 5
  along every sequence of calls whose summaries do not bind \<open>questions_asked\<close>, the
  minimal default has the six keys, and a completing call stores the summary it returns.
\<close>

lemma dict_get_update_other:
  "\<not> dict_has e k \<Longrightarrow> dict_get (dict_update d e) k = dict_get d k"
proof -
  assume "\<not> dict_has e k"
  then have "map_of (rev e) k = None"
    by (simp add: dict_has_def map_of_eq_None_iff)
  then show ?thesis by (simp add: dict_get_update)
qed

lemma minimal_no_counter: "\<not> dict_has (minimal_summary ctx) ''questions_asked''"
  by (simp add: minimal_summary_def dict_has_def)

lemma get_other_store:
  "fid' \<noteq> fid \<Longrightarrow>
     get_feature_context (set_feature_context store fid ctx) fid' = get_feature_context store fid'"
  by (simp add: get_feature_context_def set_feature_context_def set_feature_context_ttl_def
      update_conv')

lemma counter_ok_set:
  "counter_ok (set_feature_context store fid ctx) fid'
     = (if fid' = fid
        then (case questions_asked_of ctx of None \<Rightarrow> False | Some n \<Rightarrow> n \<le> 5)
        else counter_ok store fid')"
  by (simp add: counter_ok_def get_other_store get_or_def)

lemma force_completion_counter:
  assumes "questions_asked_of context = Some n" "n \<le> 5"
    and "\<not> binds_counter (generate_context_summary history synth)"
  shows "\<exists>ctx'. snd (force_completion store fid context history synth)
                   = set_feature_context store fid ctx'
               \<and> questions_asked_of ctx' = Some n"
proof -
  let ?g = "generate_context_summary history synth"
  let ?cs = "if \<not> summary_truthy ?g then minimal_summary context else the ?g"
  have nb: "\<not> dict_has ?cs ''questions_asked''"
    using assms(3) minimal_no_counter[of "context"]
    by (auto simp: binds_counter_def summary_truthy_def split: option.splits)
  have "questions_asked_of
          (dict_set (dict_set (dict_set (dict_update context ?cs) ''context_summary'' (JObj ?cs))
             ''is_complete'' (JBool True)) ''forced_completion'' (JBool True)) = Some n"
    using assms(1) dict_get_update_other[OF nb, of "context"]
    by (simp add: questions_asked_of_def)
  moreover have "snd (force_completion store fid context history synth)
          = set_feature_context store fid
              (dict_set (dict_set (dict_set (dict_update context ?cs) ''context_summary'' (JObj ?cs))
                 ''is_complete'' (JBool True)) ''forced_completion'' (JBool True))"
    by (simp add: force_completion_def Let_def)
  ultimately show ?thesis by blast
qed

lemma first_call_counter:
  "first_call store inp context reply = (r, store') \<Longrightarrow>
     store' = store \<or> (\<exists>ctx'. store' = set_feature_context store (in_feature_id inp) ctx'
                          \<and> questions_asked_of ctx' = Some 1)"
  by (cases reply) (auto simp: first_call_def Let_def questions_asked_of_def as_number_def get_or_def)

lemma update_context_counter:
  assumes "c \<longrightarrow> \<not> binds_counter cs"
  shows "questions_asked_of (update_context context c cs) = questions_asked_of context"
proof (cases "c \<and> summary_truthy cs")
  case True
  then obtain d where d: "cs = Some d" by (cases cs) (auto simp: summary_truthy_def)
  have "\<not> dict_has d ''questions_asked''" using assms True d by (simp add: binds_counter_def)
  from dict_get_update_other[OF this, of "context"]
  show ?thesis using True d by (simp add: update_context_def questions_asked_of_def)
next
  case False
  then show ?thesis by (auto simp: update_context_def questions_asked_of_def)
qed

lemma resolve_reply_cases:
  "resolve_reply response history synth = (c, q, cs) \<Longrightarrow>
     cs = lr_context_summary response \<or> cs = generate_context_summary history synth"
  by (auto simp: resolve_reply_def Let_def split: if_splits)

lemma continuing_call_counter:
  assumes "questions_asked_of context = Some n" "n < 5"
    and "\<not> binds_counter (case reply of Inl e \<Rightarrow> None | Inr r \<Rightarrow> lr_context_summary r)"
    and "\<not> binds_counter (generate_context_summary
            (in_conversation_history inp
               @ [\<lparr> msg_role = ''user'', msg_content = in_user_response inp \<rparr>]) synth)"
  shows "snd (continuing_call store inp context reply synth) = store
         \<or> (\<exists>ctx'. snd (continuing_call store inp context reply synth)
                      = set_feature_context store (in_feature_id inp) ctx'
                  \<and> questions_asked_of ctx' = Some (n + 1))"
proof (cases "sliceable (get_or (dict_get context ''feature_description'') (JStr ''''))")
  case False
  then show ?thesis by (simp add: continuing_call_def Let_def)
next
  case True
  show ?thesis
  proof (cases reply)
    case (Inl e)
    then show ?thesis using True by (simp add: continuing_call_def Let_def)
  next
    case (Inr response)
    let ?h = "in_conversation_history inp
                       @ [\<lparr> msg_role = ''user'', msg_content = in_user_response inp \<rparr>]"
    obtain c q cs where r: "resolve_reply response ?h synth = (c, q, cs)"
      by (cases "resolve_reply response ?h synth") auto
    have "\<not> binds_counter cs"
      using resolve_reply_cases[OF r] assms(3,4) Inr by auto
    then have cnt: "questions_asked_of (update_context context c cs) = Some n"
      using update_context_counter[of c cs "context"] assms(1) by simp
    have "questions_asked_of (dict_set (update_context context c cs) ''questions_asked''
            (JInt (n + 1))) = Some (n + 1)"
      by (simp add: questions_asked_of_def as_number_def get_or_def)
    moreover have "snd (continuing_call store inp context reply synth)
            = set_feature_context store (in_feature_id inp)
                (dict_set (update_context context c cs) ''questions_asked'' (JInt (n + 1)))"
      using True Inr r cnt by (simp add: continuing_call_def Let_def)
    ultimately show ?thesis by blast
  qed
qed

lemma execute_counter_ok:
  assumes "\<forall>fid. counter_ok store fid" "clean_call c"
  shows "\<forall>fid. counter_ok (snd (execute store (c_input c) (c_reply c) (c_synth c))) fid"
proof -
  let ?inp = "c_input c"
  let ?fid = "in_feature_id ?inp"
  let ?ctx = "get_or (get_feature_context store ?fid) []"
  from assms(1) obtain n where n: "questions_asked_of ?ctx = Some n" "n \<le> 5"
    by (auto simp: counter_ok_def split: option.splits)
  consider (forced) "n \<ge> 5" | (first) "\<not> n \<ge> 5" "in_conversation_history ?inp = []"
    | (cont) "\<not> n \<ge> 5" "in_conversation_history ?inp \<noteq> []" by blast
  then show ?thesis
  proof cases
    case forced
    then have ex: "execute store ?inp (c_reply c) (c_synth c)
                     = force_completion store ?fid ?ctx (in_conversation_history ?inp) (c_synth c)"
      using n by (simp add: execute_def Let_def)
    from force_completion_counter[OF n, of "in_conversation_history ?inp" "c_synth c" store ?fid]
      assms(2)
    obtain ctx' where "snd (force_completion store ?fid ?ctx (in_conversation_history ?inp) (c_synth c))
                   = set_feature_context store ?fid ctx'" "questions_asked_of ctx' = Some n"
      by (auto simp: clean_call_def)
    then show ?thesis unfolding ex using assms(1) n(2) by (simp add: counter_ok_set)
  next
    case first
    then have ex: "execute store ?inp (c_reply c) (c_synth c) = first_call store ?inp ?ctx (c_reply c)"
      using n by (simp add: execute_def Let_def)
    obtain r store' where fc: "first_call store ?inp ?ctx (c_reply c) = (r, store')"
      by (cases "first_call store ?inp ?ctx (c_reply c)") auto
    from first_call_counter[OF fc] show ?thesis
      unfolding ex fc using assms(1) by (auto simp: counter_ok_set)
  next
    case cont
    then have ex: "execute store ?inp (c_reply c) (c_synth c)
                     = continuing_call store ?inp ?ctx (c_reply c) (c_synth c)"
      using n by (simp add: execute_def Let_def)
    have lt: "n < 5" using cont(1) by simp
    from continuing_call_counter[OF n(1) lt, of "c_reply c" ?inp "c_synth c" store] assms(2)
    have "snd (continuing_call store ?inp ?ctx (c_reply c) (c_synth c)) = store
         \<or> (\<exists>ctx'. snd (continuing_call store ?inp ?ctx (c_reply c) (c_synth c))
                      = set_feature_context store ?fid ctx'
                  \<and> questions_asked_of ctx' = Some (n + 1))"
      by (simp add: clean_call_def)
    then show ?thesis unfolding ex using assms(1) lt by (auto simp: counter_ok_set)
  qed
qed

lemma run_calls_counter_ok:
  "\<forall>fid. counter_ok store fid \<Longrightarrow> \<forall>c \<in> set cs. clean_call c
     \<Longrightarrow> \<forall>fid. counter_ok (run_calls store cs) fid"
proof (induction cs arbitrary: store)
  case Nil
  then show ?case by simp
next
  case (Cons c cs)
  have "\<forall>fid. counter_ok (snd (execute store (c_input c) (c_reply c) (c_synth c))) fid"
    using execute_counter_ok[OF Cons.prems(1)] Cons.prems(2) by simp
  then show ?case using Cons.IH Cons.prems(2) by simp
qed

lemma empty_store_counter_ok: "counter_ok [] fid"
  by (simp add: counter_ok_def get_feature_context_def questions_asked_of_def dict_get_def
      as_number_def get_or_def)


lemma minimal_has_required_keys: "has_required_keys (minimal_summary ctx)"
  by (simp add: has_required_keys_def required_keys_def minimal_summary_def dict_has_def)

lemma continuing_call_stores_summary:
  assumes "fst (continuing_call store inp ctx reply synth) = Inr out" "out_is_complete out"
  shows "summary_truthy (out_context_summary out)
     \<and> stored_summary (snd (continuing_call store inp ctx reply synth)) (in_feature_id inp)
          = out_context_summary out"
proof -
  let ?h = "in_conversation_history inp
                       @ [\<lparr> msg_role = ''user'', msg_content = in_user_response inp \<rparr>]"
  from assms(1) have sl: "sliceable (get_or (dict_get ctx ''feature_description'') (JStr ''''))"
    by (auto simp: continuing_call_def Let_def split: if_splits)
  from assms(1) sl obtain response where resp: "reply = Inr response"
    by (cases reply) (auto simp: continuing_call_def Let_def)
  obtain c q cs where r: "resolve_reply response ?h synth = (c, q, cs)"
    by (cases "resolve_reply response ?h synth") auto
  from assms(1) sl resp r obtain n where n: "questions_asked_of (update_context ctx c cs) = Some n"
    by (cases "questions_asked_of (update_context ctx c cs)")
       (auto simp: continuing_call_def Let_def)
  have out: "out_is_complete out = c" "out_context_summary out = (if c then cs else None)"
    using assms(1) sl resp r n by (auto simp: continuing_call_def Let_def)
  then have c: c using assms(2) by simp
  then have tr: "summary_truthy cs" using resolve_reply_summary[OF r] by simp
  then obtain d where d: "cs = Some d" by (cases cs) (auto simp: summary_truthy_def)
  have st: "snd (continuing_call store inp ctx reply synth)
              = set_feature_context store (in_feature_id inp)
                  (dict_set (update_context ctx c cs) ''questions_asked'' (JInt (n + 1)))"
    using sl resp r n by (simp add: continuing_call_def Let_def)
  show ?thesis
    unfolding st using c tr d out
    by (simp add: stored_summary_def update_context_def)
qed

text \<open>
  Claim C1 at a failing input. The counter is at 5, so the call is forced to completion
  without the question request being consulted; the summary request answers with an
  object that has only \<open>goals\<close>. The call returns that object as the context summary:
  it does not contain the six required keys.
\<close>

theorem forced_completion_partial_summary:
  "fst (execute
          [(7, [(''feature_name'', JStr ''Login''), (''questions_asked'', JInt 5)], 3600)]
          \<lparr> in_feature_id = 7, in_feature_name = None, in_feature_description = None,
            in_user_response = Some ''Customers'',
            in_conversation_history = [\<lparr> msg_role = ''assistant'', msg_content = Some ''Who?'' \<rparr>] \<rparr>
          (Inl ReasoningError)
          (Inr (JObj [(''goals'', JList [JStr ''sign in''])])))
     = Inr \<lparr> out_feature_id = 7, out_question = None, out_is_complete = True,
             out_context_summary = Some [(''goals'', JList [JStr ''sign in''])],
             out_conversation_history =
               [\<lparr> msg_role = ''assistant'', msg_content = Some ''Who?'' \<rparr>],
             out_forced_completion = Some True,
             out_completion_reason = Some ''Maximum question limit reached (5 questions)'' \<rparr>
   \<and> \<not> has_required_keys [(''goals'', JList [JStr ''sign in''])]"
  by (simp add: execute_def questions_asked_of_def get_feature_context_def dict_get_def
        as_number_def get_or_def force_completion_def generate_context_summary_def
        summary_truthy_def has_required_keys_def required_keys_def dict_has_def Let_def)

text \<open>
  Claim C4 at a failing input. The reply to a continuing call signals completion with a
  summary that has only \<open>goals\<close>. The stored completion flag becomes true and the stored
  summary is that object: neither it nor the stored context contains the six required keys.
\<close>

theorem completion_flag_partial_summary:
  "stored_complete (snd (execute
          [(7, [(''feature_name'', JStr ''Login''), (''feature_description'', JStr ''Sign in''),
                (''questions_asked'', JInt 1)], 3600)]
          \<lparr> in_feature_id = 7, in_feature_name = None, in_feature_description = None,
            in_user_response = Some ''Customers'',
            in_conversation_history = [\<lparr> msg_role = ''assistant'', msg_content = Some ''Who?'' \<rparr>] \<rparr>
          (Inr \<lparr> lr_question = None, lr_is_complete = True,
                 lr_context_summary = Some [(''goals'', JList [JStr ''sign in''])] \<rparr>)
          (Inl ReasoningError))) 7
   \<and> stored_summary (snd (execute
          [(7, [(''feature_name'', JStr ''Login''), (''feature_description'', JStr ''Sign in''),
                (''questions_asked'', JInt 1)], 3600)]
          \<lparr> in_feature_id = 7, in_feature_name = None, in_feature_description = None,
            in_user_response = Some ''Customers'',
            in_conversation_history = [\<lparr> msg_role = ''assistant'', msg_content = Some ''Who?'' \<rparr>] \<rparr>
          (Inr \<lparr> lr_question = None, lr_is_complete = True,
                 lr_context_summary = Some [(''goals'', JList [JStr ''sign in''])] \<rparr>)
          (Inl ReasoningError))) 7 = Some [(''goals'', JList [JStr ''sign in''])]
   \<and> \<not> has_required_keys [(''goals'', JList [JStr ''sign in''])]
   \<and> get_feature_context (snd (execute
          [(7, [(''feature_name'', JStr ''Login''), (''feature_description'', JStr ''Sign in''),
                (''questions_asked'', JInt 1)], 3600)]
          \<lparr> in_feature_id = 7, in_feature_name = None, in_feature_description = None,
            in_user_response = Some ''Customers'',
            in_conversation_history = [\<lparr> msg_role = ''assistant'', msg_content = Some ''Who?'' \<rparr>] \<rparr>
          (Inr \<lparr> lr_question = None, lr_is_complete = True,
                 lr_context_summary = Some [(''goals'', JList [JStr ''sign in''])] \<rparr>)
          (Inl ReasoningError))) 7
      = Some [(''feature_name'', JStr ''Login''), (''feature_description'', JStr ''Sign in''),
              (''questions_asked'', JInt 2), (''goals'', JList [JStr ''sign in'']),
              (''context_summary'', JObj [(''goals'', JList [JStr ''sign in''])]),
              (''is_complete'', JBool True)]"
  by (simp add: execute_def questions_asked_of_def get_feature_context_def dict_get_def
        as_number_def get_or_def continuing_call_def sliceable_def resolve_reply_def
        summary_truthy_def str_truthy_def update_context_def dict_set_def dict_update_def
        stored_complete_def stored_summary_def set_feature_context_def set_feature_context_ttl_def
        has_required_keys_def required_keys_def dict_has_def Let_def)


subsection \<open>The precondition of story generation\<close>







end
